theory Spec2Isabelle
  imports Main
begin

section \<open>The Streamlit front-end \<open>app.py\<close>\<close>

text \<open>
  \<open>app.py\<close> is a Streamlit script: the framework executes it from the first line to the
  last on every user interaction (a "rerun"). One execution is modelled by the function
  \<open>script\<close>. What outlives an execution is kept in a \<open>world\<close> record (the session
  dictionary, the resource cache of \<open>st.cache_resource\<close>, the files on disk); what the
  execution reads from outside is given by \<open>env\<close> (process environment, the pipeline
  class, the operating system) and by \<open>ui\<close> (the values the widgets return).

  The theory is plain ASCII: the pictographs that prefix some labels and messages of the
  source are left out, and the fixed messages and HTML blocks are constructors of the
  datatypes \<open>message\<close> and \<open>block\<close>, each documented with the source text it stands for.
\<close>

subsection \<open>Python values\<close>

text \<open>
  An exception raised by a collaborator, with \<open>str(e)\<close>. All of them are instances of
  Python's \<open>Exception\<close>, which is what both handlers of the source catch
  (\<open>except Exception\<close>). The script-control signals of \<open>st.stop()\<close> and
  \<open>st.rerun()\<close> are not exceptions of this type: they are outcomes of the run.
\<close>

datatype py_exception = Exception string

fun str_of :: "py_exception \<Rightarrow> string" where
  "str_of (Exception m) = m"

text \<open>Truth value of a string and of \<open>None\<close>-or-string, as \<open>if x:\<close> tests it.\<close>

definition truthy :: "string \<Rightarrow> bool" where
  "truthy s = (s \<noteq> [])"

definition truthy_opt :: "string option \<Rightarrow> bool" where
  "truthy_opt v = (case v of None \<Rightarrow> False | Some s \<Rightarrow> truthy s)"

text \<open>\<open>str.lower()\<close> on ASCII text (the only text the script lower-cases).\<close>

definition lower_char :: "char \<Rightarrow> char" where
  "lower_char c =
     (let n = (of_char c :: nat) in if 65 \<le> n \<and> n \<le> 90 then char_of (n + 32) else c)"

definition lower :: "string \<Rightarrow> string" where
  "lower s = map lower_char s"

subsection \<open>Collaborators\<close>

text \<open>
  \<open>SummarizationPipeline\<close> lives in \<open>src/combinedPipeline\<close>, outside this file; the
  script only calls its constructor and its two methods. An instance is the pair of its
  methods; each call returns a string or raises.
\<close>

record pipeline =
  summarize :: "string \<Rightarrow> string \<Rightarrow> string \<Rightarrow> py_exception + string"
  paraphrase :: "string \<Rightarrow> py_exception + string"

text \<open>
  What the script reads from its process and operating system.
  \<^item> \<open>HF_API_KEY\<close>: \<open>os.getenv("HF_API_KEY")\<close> after \<open>load_dotenv\<close>;
  \<^item> \<open>SummarizationPipeline\<close>: the constructor, which may raise;
  \<^item> \<open>path_home\<close>: \<open>Path.home()\<close>, \<open>None\<close> when it raises \<open>RuntimeError\<close>;
  \<^item> \<open>joinpath\<close>: pathlib's \<open>/\<close>; a path is identified with its \<open>str()\<close>;
  \<^item> \<open>can_open p\<close>: \<open>open(p, "w", encoding="utf-8")\<close> succeeds;
  \<^item> \<open>can_write p s\<close>: writing \<open>s\<close> to the opened file and closing it succeeds;
  \<^item> \<open>linesep\<close>: \<open>os.linesep\<close>, the line separator of the platform (LF on POSIX,
    CR LF on Windows).
\<close>

record env =
  HF_API_KEY :: "string option"
  SummarizationPipeline :: "string \<Rightarrow> py_exception + pipeline"
  path_home :: "string option"
  joinpath :: "string \<Rightarrow> string \<Rightarrow> string"
  can_open :: "string \<Rightarrow> bool"
  can_write :: "string \<Rightarrow> string \<Rightarrow> bool"
  linesep :: string

text \<open>The values the widgets return in one execution of the script.\<close>

record ui =
  radio_task :: string
  selectbox_style :: string
  slider_length :: string
  text_area_input :: string
  run_btn :: bool
  clear_btn :: bool
  save_btn :: bool

subsection \<open>Effects of one execution\<close>

datatype message =
    MissingKey
      \<comment> \<open>"Missing Hugging Face API Key. Add it in `src/.env`."\<close>
  | InitFailed string
      \<comment> \<open>f"Failed to initialize pipeline: {e}"\<close>
  | Connected
      \<comment> \<open>"Hugging Face API Connected"\<close>
  | Completed
      \<comment> \<open>"Completed successfully."\<close>
  | RunFailed string
      \<comment> \<open>f"Error: {e}"\<close>
  | FileSaved string
      \<comment> \<open>f"File saved to: {saved_path}"\<close>
  | CouldNotSave
      \<comment> \<open>"Could not save file"\<close>

datatype block =
    Css
      \<comment> \<open>the style sheet\<close>
  | TokenLink
      \<comment> \<open>"Get one here: [Hugging Face Tokens](https://huggingface.co/settings/tokens)"\<close>
  | Rule
      \<comment> \<open>"---"\<close>
  | AboutBox
  | Title
      \<comment> \<open>"## AI Text Summarizer and Paraphraser"\<close>
  | PoweredBy
  | Placeholder
      \<comment> \<open>"Enter text above and click Run to start..."\<close>
  | Footer

datatype effect =
    st_set_page_config
  | st_markdown block
  | st_error message
  | st_success message
  | st_header string
  | st_subheader string
  | st_caption
  | st_radio
  | st_selectbox
  | st_select_slider
  | st_text_area string string
      \<comment> \<open>label, value shown\<close>
  | st_button string
  | st_spinner
  | construct string
      \<comment> \<open>\<open>SummarizationPipeline(HF_TOKEN)\<close> is executed\<close>
  | call_summarize string string string
      \<comment> \<open>\<open>model_pipeline.summarize(text, method=..., length=...)\<close> is executed\<close>
  | call_paraphrase string
      \<comment> \<open>\<open>model_pipeline.paraphrase(text)\<close> is executed\<close>
  | open_w string
      \<comment> \<open>\<open>open(path, "w", encoding="utf-8")\<close> is executed\<close>

text \<open>How an execution of the script ends.\<close>

datatype outcome =
    Finished
      \<comment> \<open>the last line was reached\<close>
  | Stopped
      \<comment> \<open>\<open>st.stop()\<close>\<close>
  | Rerun
      \<comment> \<open>\<open>st.rerun()\<close>\<close>
  | Crashed py_exception
      \<comment> \<open>an exception no handler of the script catches\<close>

subsection \<open>State\<close>

text \<open>\<open>st.session_state\<close> is a dictionary from keys to values.\<close>

type_synonym session = "string \<rightharpoonup> string"

record world =
  session_state :: session
  cache :: "pipeline option"
  files :: "string \<rightharpoonup> string"
  trace :: "effect list"

definition emit :: "effect \<Rightarrow> world \<Rightarrow> world" where
  "emit e w = w\<lparr>trace := trace w @ [e]\<rparr>"

definition set_state :: "string \<Rightarrow> string \<Rightarrow> world \<Rightarrow> world" where
  "set_state k v w = w\<lparr>session_state := (session_state w)(k \<mapsto> v)\<rparr>"

text \<open>
  Reading \<open>st.session_state.k\<close>: an \<open>AttributeError\<close> when the key is missing.
\<close>

definition get_state :: "string \<Rightarrow> world \<Rightarrow> py_exception + string" where
  "get_state k w =
     (case session_state w k of
        None \<Rightarrow> Inl (Exception (''st.session_state has no attribute '' @ k))
      | Some v \<Rightarrow> Inr v)"

subsection \<open>\<open>save_file\<close> (lines 94-103)\<close>

text \<open>
  The file is opened in text mode with no \<open>newline=\<close> argument, so \<open>f.write\<close>
  writes every line feed of the text as the line separator of the platform and every
  other character as it is.
\<close>

definition LF :: char where
  "LF = CHR 0x0A"

definition CR :: char where
  "CR = CHR 0x0D"

definition text_mode :: "string \<Rightarrow> string \<Rightarrow> string" where
  "text_mode sep s = concat (map (\<lambda>c. if c = LF then sep else [c]) s)"

text \<open>
  The body of the \<open>try\<close>. \<open>open(path, "w")\<close> creates or truncates the file; a write
  that fails is modelled as writing nothing, so the file stays as \<open>open\<close> left it.
\<close>

definition save_file_try :: "env \<Rightarrow> string \<Rightarrow> string \<Rightarrow> world \<Rightarrow> (py_exception + string) \<times> world" where
  "save_file_try e content filename w =
     (case path_home e of
        None \<Rightarrow> (Inl (Exception ''Could not determine home directory.''), w)
      | Some home \<Rightarrow>
          let downloads = joinpath e home ''Downloads'';
              path = joinpath e downloads filename;
              w1 = emit (open_w path) w
          in if \<not> can_open e path then (Inl (Exception ''open failed''), w1)
             else
               let w2 = w1\<lparr>files := (files w1)(path \<mapsto> [])\<rparr>
               in if \<not> can_write e path content then (Inl (Exception ''write failed''), w2)
                  else (Inr path,
                        w2\<lparr>files := (files w2)(path \<mapsto> text_mode (linesep e) content)\<rparr>))"

text \<open>The \<open>try\<close> with its handler \<open>except Exception: return None\<close>.\<close>

definition save_file :: "env \<Rightarrow> string \<Rightarrow> string \<Rightarrow> world \<Rightarrow> string option \<times> world" where
  "save_file e content filename w =
     (case save_file_try e content filename w of
        (Inr p, w') \<Rightarrow> (Some p, w')
      | (Inl ex, w') \<Rightarrow> (None, w'))"

subsection \<open>Start of the script (lines 16-127)\<close>

text \<open>Lines 106-108: each of the three keys gets the value \<open>""\<close> unless it is present.\<close>

definition init_key :: "string \<Rightarrow> session \<Rightarrow> session" where
  "init_key key ss = (if ss key = None then ss(key \<mapsto> []) else ss)"

definition init_session :: "session \<Rightarrow> session" where
  "init_session ss = fold init_key [''text_input'', ''text_output'', ''mode''] ss"

text \<open>
  Lines 119-121: \<open>get_pipeline\<close> under \<open>st.cache_resource\<close>; the constructor runs only
  when nothing is cached, and only a returned instance is cached.
\<close>

definition get_pipeline :: "env \<Rightarrow> string \<Rightarrow> world \<Rightarrow> (py_exception + pipeline) \<times> world" where
  "get_pipeline e token w =
     (case cache w of
        Some p \<Rightarrow> (Inr p, w)
      | None \<Rightarrow>
          let w1 = emit (construct token) w
          in (case SummarizationPipeline e token of
                Inl ex \<Rightarrow> (Inl ex, w1)
              | Inr p \<Rightarrow> (Inr p, w1\<lparr>cache := Some p\<rparr>)))"

subsection \<open>The page (lines 129-242)\<close>

text \<open>
  Lines 130-169. The locals \<open>style\<close> and \<open>length\<close> are \<open>None\<close> unless the task is
  summarization.
\<close>

definition sidebar :: "ui \<Rightarrow> world \<Rightarrow> (string \<times> string option \<times> string option) \<times> world" where
  "sidebar u w =
     (let w1 = emit st_radio (emit (st_header ''Settings'') w);
          task = radio_task u;
          (style, length', w2) =
            (if task = ''Summarization''
             then (Some (selectbox_style u), Some (slider_length u),
                   emit st_select_slider (emit st_selectbox w1))
             else (None, None, w1));
          w3 = emit (st_markdown AboutBox) (emit (st_header ''About'')
                 (emit st_caption (emit (st_success Connected) (emit (st_markdown Rule) w2))))
      in ((task, style, length'), w3))"

text \<open>Lines 172-188: header, the input area, the three buttons.\<close>

definition input_section :: "ui \<Rightarrow> world \<Rightarrow> (py_exception + string) \<times> world" where
  "input_section u w =
     (let w1 = emit (st_subheader ''Input Text'')
                 (emit (st_markdown PoweredBy) (emit (st_markdown Title) w))
      in case get_state ''text_input'' w1 of
           Inl ex \<Rightarrow> (Inl ex, w1)
         | Inr shown \<Rightarrow>
             let w2 = emit (st_text_area ''Enter your text below:'' shown) w1;
                 input_text = text_area_input u;
                 w3 = set_state ''text_input'' input_text w2;
                 w4 = emit (st_button ''Save Output'')
                        (emit (st_button ''Clear'') (emit (st_button ''Run'') w3))
             in (Inr input_text, w4))"

text \<open>Lines 191-192: every key of the session dictionary is set to \<open>""\<close>.\<close>

definition clear_session :: "session \<Rightarrow> session" where
  "clear_session ss = (\<lambda>k. case ss k of None \<Rightarrow> None | Some v \<Rightarrow> Some [])"

text \<open>
  Lines 201-214, the body of the \<open>try\<close> of the Run handler. \<open>None\<close> is normal
  completion. \<open>style.lower()\<close> and \<open>length.lower()\<close> are evaluated before the call
  and raise \<open>AttributeError\<close> on \<open>None\<close>.
\<close>

definition run_try :: "pipeline \<Rightarrow> string \<Rightarrow> string option \<Rightarrow> string option \<Rightarrow> string \<Rightarrow> world
    \<Rightarrow> py_exception option \<times> world" where
  "run_try p task style length' input_text w =
     (case
        (if task = ''Summarization'' then
           (case style of
              None \<Rightarrow> (Inl (Exception ''NoneType object has no attribute lower''), w)
            | Some s \<Rightarrow>
                (case length' of
                   None \<Rightarrow> (Inl (Exception ''NoneType object has no attribute lower''), w)
                 | Some l \<Rightarrow>
                     let w1 = emit (call_summarize input_text (lower s) (lower l)) w
                     in (case summarize p input_text (lower s) (lower l) of
                           Inl ex \<Rightarrow> (Inl ex, w1)
                         | Inr result \<Rightarrow> (Inr result, set_state ''mode'' ''summary'' w1))))
         else
           let w1 = emit (call_paraphrase input_text) w
           in (case paraphrase p input_text of
                 Inl ex \<Rightarrow> (Inl ex, w1)
               | Inr result \<Rightarrow> (Inr result, set_state ''mode'' ''paraphrase'' w1)))
      of
        (Inl ex, w') \<Rightarrow> (Some ex, w')
      | (Inr result, w') \<Rightarrow>
          (None, emit (st_text_area ''Result'' result)
                   (emit (st_success Completed) (set_state ''text_output'' result w'))))"

text \<open>Lines 196-222.\<close>

definition output_section :: "pipeline \<Rightarrow> ui \<Rightarrow> string \<Rightarrow> string option \<Rightarrow> string option \<Rightarrow> string
    \<Rightarrow> world \<Rightarrow> py_exception option \<times> world" where
  "output_section p u task style length' input_text w =
     (let w1 = emit (st_subheader ''Output'') w
      in if run_btn u \<and> truthy input_text then
           (case run_try p task style length' input_text (emit st_spinner w1) of
              (Some ex, w2) \<Rightarrow> (None, emit (st_error (RunFailed (str_of ex))) w2)
            | (None, w2) \<Rightarrow> (None, w2))
         else
           (case get_state ''text_output'' w1 of
              Inl ex \<Rightarrow> (Some ex, w1)
            | Inr out \<Rightarrow>
                if truthy out then (None, emit (st_text_area ''Previous Output'' out) w1)
                else (None, emit (st_markdown Placeholder) w1)))"

text \<open>Lines 225-231.\<close>

definition save_section :: "env \<Rightarrow> ui \<Rightarrow> world \<Rightarrow> py_exception option \<times> world" where
  "save_section e u w =
     (if \<not> save_btn u then (None, w)
      else
        case get_state ''text_output'' w of
          Inl ex \<Rightarrow> (Some ex, w)
        | Inr out \<Rightarrow>
            if \<not> truthy out then (None, w)
            else
              (case get_state ''mode'' w of
                 Inl ex \<Rightarrow> (Some ex, w)
               | Inr m \<Rightarrow>
                   let filename = (if m = ''summary'' then ''AI_output.txt'' else ''AI_paraphrase.txt'');
                       (saved_path, w1) = save_file e out filename w
                   in (case saved_path of
                         None \<Rightarrow> (None, emit (st_error CouldNotSave) w1)
                       | Some sp \<Rightarrow>
                           if truthy sp then (None, emit (st_success (FileSaved sp)) w1)
                           else (None, emit (st_error CouldNotSave) w1))))"

definition page :: "env \<Rightarrow> ui \<Rightarrow> pipeline \<Rightarrow> world \<Rightarrow> outcome \<times> world" where
  "page e u model_pipeline w =
     (let ((task, style, length'), w1) = sidebar u w
      in case input_section u w1 of
           (Inl ex, w2) \<Rightarrow> (Crashed ex, w2)
         | (Inr input_text, w2) \<Rightarrow>
             if clear_btn u then (Rerun, w2\<lparr>session_state := clear_session (session_state w2)\<rparr>)
             else
               (case output_section model_pipeline u task style length' input_text w2 of
                  (Some ex, w3) \<Rightarrow> (Crashed ex, w3)
                | (None, w3) \<Rightarrow>
                    (case save_section e u w3 of
                       (Some ex, w4) \<Rightarrow> (Crashed ex, w4)
                     | (None, w4) \<Rightarrow> (Finished, emit (st_markdown Footer) w4))))"

subsection \<open>One execution of the script\<close>

text \<open>
  Every execution draws the page anew, so its log of effects starts empty.
  \<open>missing_key\<close> is lines 112-116, taken when \<open>not HF_TOKEN\<close>: the token is
  \<open>None\<close> or the empty string.
\<close>

definition missing_key :: "world \<Rightarrow> outcome \<times> world" where
  "missing_key w = (Stopped, emit (st_markdown TokenLink) (emit (st_error MissingKey) w))"

definition script :: "env \<Rightarrow> ui \<Rightarrow> world \<Rightarrow> outcome \<times> world" where
  "script e u w =
     (let w1 = emit (st_markdown Css) (emit st_set_page_config (w\<lparr>trace := []\<rparr>));
          w2 = w1\<lparr>session_state := init_session (session_state w1)\<rparr>
      in case HF_API_KEY e of
           None \<Rightarrow> missing_key w2
         | Some HF_TOKEN \<Rightarrow>
             if \<not> truthy HF_TOKEN then missing_key w2
             else
               (case get_pipeline e HF_TOKEN w2 of
                  (Inl ex, w3) \<Rightarrow> (Stopped, emit (st_error (InitFailed (str_of ex))) w3)
                | (Inr model_pipeline, w3) \<Rightarrow> page e u model_pipeline w3))"


subsection \<open>A click and the rerun it may request\<close>

text \<open>
  \<open>st.rerun()\<close> (line 193) makes the framework execute the script again at once. No
  button was clicked for that execution, so the three buttons return \<open>False\<close> in it;
  \<open>u'\<close> gives what the other widgets return there. What the text area returns in the
  rerun is decided by the framework (the text it holds for that widget), not by the
  script, so it is an input here.
\<close>

definition no_click :: "ui \<Rightarrow> ui" where
  "no_click u = u\<lparr>run_btn := False, clear_btn := False, save_btn := False\<rparr>"

definition interaction :: "env \<Rightarrow> ui \<Rightarrow> ui \<Rightarrow> world \<Rightarrow> outcome \<times> world" where
  "interaction e u u' w =
     (case script e u w of
        (Rerun, w1) \<Rightarrow> script e (no_click u') w1
      | (r, w1) \<Rightarrow> (r, w1))"

section \<open>Notions used to state the properties\<close>

text \<open>
  The script gets past its start (lines 110-127) with the pipeline \<open>p\<close>: the token is a
  non-empty string, and \<open>p\<close> is the cached instance or, with an empty cache, the one the
  constructor returns.
\<close>

definition starts_with :: "env \<Rightarrow> world \<Rightarrow> pipeline \<Rightarrow> bool" where
  "starts_with e w p =
     (case HF_API_KEY e of
        None \<Rightarrow> False
      | Some token \<Rightarrow>
          truthy token \<and>
          (case cache w of
             Some q \<Rightarrow> q = p
           | None \<Rightarrow> SummarizationPipeline e token = Inr p))"

text \<open>
  The three keys of lines 106-108 are present. Every execution leaves them so (lemma
  \<open>script_initialised\<close> below), hence they are present whenever a button is clicked.
\<close>

definition initialised :: "session \<Rightarrow> bool" where
  "initialised ss = (ss ''text_input'' \<noteq> None \<and> ss ''text_output'' \<noteq> None \<and> ss ''mode'' \<noteq> None)"

text \<open>The inference calls, the file openings and the errors shown in a log.\<close>

fun is_call :: "effect \<Rightarrow> bool" where
  "is_call (call_summarize t m l) = True"
| "is_call (call_paraphrase t) = True"
| "is_call x = False"

fun is_open :: "effect \<Rightarrow> bool" where
  "is_open (open_w p) = True"
| "is_open x = False"

fun is_error :: "effect \<Rightarrow> bool" where
  "is_error (st_error m) = True"
| "is_error x = False"

definition calls :: "world \<Rightarrow> effect list" where
  "calls w = filter is_call (trace w)"

definition opens :: "world \<Rightarrow> effect list" where
  "opens w = filter is_open (trace w)"

definition errors :: "world \<Rightarrow> effect list" where
  "errors w = filter is_error (trace w)"

text \<open>
  The inference call of lines 201-209 for the widget values \<open>u\<close>, as an effect and as
  the value it returns or the exception it raises.
\<close>

definition the_call :: "ui \<Rightarrow> effect" where
  "the_call u =
     (if radio_task u = ''Summarization''
      then call_summarize (text_area_input u) (lower (selectbox_style u)) (lower (slider_length u))
      else call_paraphrase (text_area_input u))"

definition inference :: "pipeline \<Rightarrow> ui \<Rightarrow> py_exception + string" where
  "inference p u =
     (if radio_task u = ''Summarization''
      then summarize p (text_area_input u) (lower (selectbox_style u)) (lower (slider_length u))
      else paraphrase p (text_area_input u))"

definition mode_tag :: "ui \<Rightarrow> string" where
  "mode_tag u = (if radio_task u = ''Summarization'' then ''summary'' else ''paraphrase'')"

text \<open>The options of the two selectors (lines 134-135).\<close>

definition style_options :: "string list" where
  "style_options = [''Abstractive'', ''Extractive'']"

definition length_options :: "string list" where
  "length_options = [''Short'', ''Medium'', ''Long'']"

text \<open>
  The valid values of \<open>method\<close> and \<open>length\<close> as the specification of the inference
  request names them, each paired with the option that displays it in its selector.
\<close>

definition spec_methods :: "(string \<times> string) list" where
  "spec_methods = [(''Abstractive'', ''abstractive''), (''Extractive'', ''extractive'')]"

definition spec_lengths :: "(string \<times> string) list" where
  "spec_lengths = [(''Short'', ''short''), (''Medium'', ''medium''), (''Long'', ''long'')]"

text \<open>
  \<open>Path.home() / "Downloads" / filename\<close> (lines 97-98), \<open>None\<close> when the home
  directory cannot be determined; the file name line 226 chooses for a mode; and what
  it takes for lines 99-100 to succeed.
\<close>

definition download_path :: "env \<Rightarrow> string \<Rightarrow> string option" where
  "download_path e filename =
     (case path_home e of
        None \<Rightarrow> None
      | Some home \<Rightarrow> Some (joinpath e (joinpath e home ''Downloads'') filename))"

definition save_name :: "string \<Rightarrow> string" where
  "save_name m = (if m = ''summary'' then ''AI_output.txt'' else ''AI_paraphrase.txt'')"

definition writable :: "env \<Rightarrow> string \<Rightarrow> string \<Rightarrow> bool" where
  "writable e filename content =
     (case download_path e filename of
        None \<Rightarrow> False
      | Some path \<Rightarrow> can_open e path \<and> can_write e path content)"

text \<open>
  The world in which the page is drawn once the start has succeeded with \<open>p\<close>, and
  the output section applied to the locals the sidebar yields.
\<close>

definition begun :: "env \<Rightarrow> world \<Rightarrow> pipeline \<Rightarrow> world" where
  "begun e w p =
     w\<lparr>session_state := init_session (session_state w), cache := Some p,
       trace := st_set_page_config # st_markdown Css #
        (case cache w of
           Some q \<Rightarrow> []
         | None \<Rightarrow> (case HF_API_KEY e of None \<Rightarrow> [] | Some token \<Rightarrow> [construct token]))\<rparr>"

definition output_of :: "pipeline \<Rightarrow> ui \<Rightarrow> world \<Rightarrow> py_exception option \<times> world" where
  "output_of p u w =
     output_section p u (radio_task u)
       (if radio_task u = ''Summarization'' then Some (selectbox_style u) else None)
       (if radio_task u = ''Summarization'' then Some (slider_length u) else None)
       (text_area_input u) w"

section \<open>Example inputs\<close>

definition echo_pipeline :: pipeline where
  "echo_pipeline =
     \<lparr>summarize = (\<lambda>t m l. Inr (m @ '' '' @ l @ '': '' @ t)),
      paraphrase = (\<lambda>t. Inr (''again: '' @ t))\<rparr>"

definition down_pipeline :: pipeline where
  "down_pipeline =
     \<lparr>summarize = (\<lambda>t m l. Inl (Exception ''503 Service Unavailable'')),
      paraphrase = (\<lambda>t. Inl (Exception ''503 Service Unavailable''))\<rparr>"

definition posix :: "pipeline \<Rightarrow> env" where
  "posix p =
     \<lparr>HF_API_KEY = Some ''hf_abc'',
      SummarizationPipeline = (\<lambda>token. Inr p),
      path_home = Some ''/home/ann'',
      joinpath = (\<lambda>d f. d @ ''/'' @ f),
      can_open = (\<lambda>path. True),
      can_write = (\<lambda>path content. True),
      linesep = [LF]\<rparr>"

definition no_key :: env where
  "no_key = (posix echo_pipeline)\<lparr>HF_API_KEY := None\<rparr>"

definition windows :: env where
  "windows =
     (posix echo_pipeline)
       \<lparr>path_home := Some (''C:'' @ [CHR 0x5C] @ ''Users'' @ [CHR 0x5C] @ ''ann''),
        joinpath := (\<lambda>d f. d @ [CHR 0x5C] @ f),
        linesep := [CR, LF]\<rparr>"

definition read_only :: env where
  "read_only = (posix echo_pipeline)\<lparr>can_open := (\<lambda>path. False)\<rparr>"

definition idle :: ui where
  "idle =
     \<lparr>radio_task = ''Summarization'', selectbox_style = ''Abstractive'',
      slider_length = ''Medium'', text_area_input = ''Some text.'',
      run_btn = False, clear_btn = False, save_btn = False\<rparr>"

definition fresh :: world where
  "fresh = \<lparr>session_state = Map.empty, cache = None, files = Map.empty, trace = []\<rparr>"

definition blank :: world where
  "blank =
     \<lparr>session_state = [''text_input'' \<mapsto> [], ''text_output'' \<mapsto> [], ''mode'' \<mapsto> []],
      cache = None, files = Map.empty, trace = []\<rparr>"

definition two_lines :: world where
  "two_lines =
     \<lparr>session_state = [''text_input'' \<mapsto> ''Some text.'', ''text_output'' \<mapsto> ''a'' @ [LF] @ ''b'',
                        ''mode'' \<mapsto> ''summary''],
      cache = None, files = Map.empty, trace = []\<rparr>"

definition used :: world where
  "used =
     \<lparr>session_state = [''text_input'' \<mapsto> ''Some text.'', ''text_output'' \<mapsto> ''Short text.'',
                        ''mode'' \<mapsto> ''summary''],
      cache = None, files = Map.empty, trace = []\<rparr>"

section \<open>Basic facts\<close>

lemma emit_simps [simp]:
  "trace (emit x w) = trace w @ [x]"
  "session_state (emit x w) = session_state w"
  "cache (emit x w) = cache w"
  "files (emit x w) = files w"
  by (simp_all add: emit_def)

lemma set_state_simps [simp]:
  "trace (set_state k v w) = trace w"
  "session_state (set_state k v w) = (session_state w)(k \<mapsto> v)"
  "cache (set_state k v w) = cache w"
  "files (set_state k v w) = files w"
  by (simp_all add: set_state_def)

lemma init_session_apply:
  "init_session ss k =
     (if k \<in> {''text_input'', ''text_output'', ''mode''} \<and> ss k = None then Some [] else ss k)"
  by (simp add: init_session_def init_key_def)

lemma initialised_init_session [simp]: "initialised (init_session ss)"
  by (simp add: initialised_def init_session_apply)

lemma init_session_initialised: "initialised ss \<Longrightarrow> init_session ss = ss"
  by (rule ext) (auto simp add: initialised_def init_session_apply)

lemma script_page:
  assumes "starts_with e w p"
  shows "script e u w = page e u p (begun e w p)"
  using assms
  by (cases w)
    (auto simp add: starts_with_def script_def begun_def get_pipeline_def Let_def emit_def
      split: option.splits)

lemma begun_simps [simp]:
  "session_state (begun e w p) = init_session (session_state w)"
  "files (begun e w p) = files w"
  "cache (begun e w p) = Some p"
  "filter is_call (trace (begun e w p)) = []"
  "filter is_open (trace (begun e w p)) = []"
  "filter is_error (trace (begun e w p)) = []"
  by (simp_all add: begun_def split: option.splits)

subsection \<open>The sidebar\<close>

lemma sidebar_fst:
  "fst (sidebar u w) =
     (radio_task u,
      if radio_task u = ''Summarization'' then Some (selectbox_style u) else None,
      if radio_task u = ''Summarization'' then Some (slider_length u) else None)"
  by (simp add: sidebar_def Let_def)

lemma sidebar_snd [simp]:
  "session_state (snd (sidebar u w)) = session_state w"
  "files (snd (sidebar u w)) = files w"
  "cache (snd (sidebar u w)) = cache w"
  "filter is_call (trace (snd (sidebar u w))) = filter is_call (trace w)"
  "filter is_open (trace (snd (sidebar u w))) = filter is_open (trace w)"
  "filter is_error (trace (snd (sidebar u w))) = filter is_error (trace w)"
  by (simp_all add: sidebar_def Let_def)

lemma sidebar_mono: "x \<in> set (trace w) \<Longrightarrow> x \<in> set (trace (snd (sidebar u w)))"
  by (simp add: sidebar_def Let_def)

subsection \<open>The input section\<close>

lemma input_section_fst:
  "session_state w ''text_input'' \<noteq> None \<Longrightarrow> fst (input_section u w) = Inr (text_area_input u)"
  by (auto simp add: input_section_def get_state_def Let_def)

lemma input_section_snd [simp]:
  "session_state w ''text_input'' \<noteq> None \<Longrightarrow>
     session_state (snd (input_section u w)) = (session_state w)(''text_input'' \<mapsto> text_area_input u)"
  "files (snd (input_section u w)) = files w"
  "cache (snd (input_section u w)) = cache w"
  "filter is_call (trace (snd (input_section u w))) = filter is_call (trace w)"
  "filter is_open (trace (snd (input_section u w))) = filter is_open (trace w)"
  "filter is_error (trace (snd (input_section u w))) = filter is_error (trace w)"
  by (auto simp add: input_section_def get_state_def Let_def split: option.splits)

lemma input_section_mono: "x \<in> set (trace w) \<Longrightarrow> x \<in> set (trace (snd (input_section u w)))"
  by (auto simp add: input_section_def get_state_def Let_def split: option.splits)

subsection \<open>Saving\<close>

lemma save_file_snd [simp]:
  "session_state (snd (save_file e c f w)) = session_state w"
  "cache (snd (save_file e c f w)) = cache w"
  "filter is_call (trace (snd (save_file e c f w))) = filter is_call (trace w)"
  "filter is_error (trace (snd (save_file e c f w))) = filter is_error (trace w)"
  by (simp_all add: save_file_def save_file_try_def Let_def split: option.splits)

lemma save_file_mono: "x \<in> set (trace w) \<Longrightarrow> x \<in> set (trace (snd (save_file e c f w)))"
  by (simp add: save_file_def save_file_try_def Let_def split: option.splits)

lemma save_section_fst:
  "session_state w ''text_output'' \<noteq> None \<Longrightarrow> session_state w ''mode'' \<noteq> None \<Longrightarrow>
     fst (save_section e u w) = None"
  by (auto simp add: save_section_def get_state_def Let_def split: option.splits prod.splits)

lemma save_section_snd [simp]:
  "session_state (snd (save_section e u w)) = session_state w"
  "cache (snd (save_section e u w)) = cache w"
  "filter is_call (trace (snd (save_section e u w))) = filter is_call (trace w)"
  by (auto simp add: save_section_def get_state_def Let_def case_prod_unfold split: option.splits sum.splits)

lemma save_section_mono: "x \<in> set (trace w) \<Longrightarrow> x \<in> set (trace (snd (save_section e u w)))"
  by (auto simp add: save_section_def get_state_def Let_def case_prod_unfold save_file_mono
      split: option.splits sum.splits)

lemma save_section_skip:
  "\<not> save_btn u \<or> session_state w ''text_output'' = Some [] \<Longrightarrow> save_section e u w = (None, w)"
  by (auto simp add: save_section_def get_state_def truthy_def)


subsection \<open>The output section\<close>

lemma output_failed:
  assumes "run_btn u" "truthy (text_area_input u)" "inference p u = Inl ex"
  shows "output_of p u w =
     (None, emit (st_error (RunFailed (str_of ex))) (emit (the_call u)
              (emit st_spinner (emit (st_subheader ''Output'') w))))"
  using assms
  by (auto simp add: output_of_def output_section_def run_try_def inference_def the_call_def Let_def)

lemma output_succeeded:
  assumes "run_btn u" "truthy (text_area_input u)" "inference p u = Inr r"
  shows "output_of p u w =
     (None, emit (st_text_area ''Result'' r) (emit (st_success Completed)
              (set_state ''text_output'' r (set_state ''mode'' (mode_tag u)
                (emit (the_call u) (emit st_spinner (emit (st_subheader ''Output'') w)))))))"
  using assms
  by (auto simp add: output_of_def output_section_def run_try_def inference_def the_call_def
      mode_tag_def Let_def)

lemma output_idle:
  assumes "\<not> (run_btn u \<and> truthy (text_area_input u))" "session_state w ''text_output'' = Some out"
  shows "output_of p u w =
     (None, emit (if truthy out then st_text_area ''Previous Output'' out else st_markdown Placeholder)
              (emit (st_subheader ''Output'') w))"
  using assms
  by (auto simp add: output_of_def output_section_def get_state_def Let_def)

lemma output_fst:
  assumes "session_state w ''text_output'' \<noteq> None"
  shows "fst (output_of p u w) = None"
proof (cases "run_btn u \<and> truthy (text_area_input u)")
  case True
  then show ?thesis
    by (cases "inference p u") (simp_all add: output_failed output_succeeded)
next
  case False
  with assms show ?thesis by (auto simp add: output_idle)
qed

lemma output_keeps_keys:
  assumes "session_state w ''text_output'' \<noteq> None" "session_state w k \<noteq> None"
  shows "session_state (snd (output_of p u w)) k \<noteq> None"
proof (cases "run_btn u \<and> truthy (text_area_input u)")
  case True
  with assms show ?thesis
    by (cases "inference p u") (simp_all add: output_failed output_succeeded)
next
  case False
  with assms show ?thesis by (auto simp add: output_idle)
qed

lemma output_files [simp]:
  "files (snd (output_of p u w)) = files w"
  "cache (snd (output_of p u w)) = cache w"
  "filter is_open (trace (snd (output_of p u w))) = filter is_open (trace w)"
  by (auto simp add: output_of_def output_section_def run_try_def get_state_def Let_def the_call_def
      split: sum.splits option.splits)

subsection \<open>The page when Clear is not clicked\<close>

lemma page_sections:
  assumes "\<not> clear_btn u" "initialised (session_state w)"
  shows "page e u p w =
     (Finished, emit (st_markdown Footer)
        (snd (save_section e u (snd (output_of p u (snd (input_section u (snd (sidebar u w)))))))))"
proof -
  let ?w1 = "snd (sidebar u w)"
  let ?w2 = "snd (input_section u ?w1)"
  let ?w3 = "snd (output_of p u ?w2)"
  from assms(2) have k1: "session_state ?w1 ''text_input'' \<noteq> None"
    by (simp add: initialised_def)
  have in2: "fst (input_section u ?w1) = Inr (text_area_input u)"
    using k1 by (rule input_section_fst)
  from assms(2) k1 have k2: "session_state ?w2 ''text_output'' \<noteq> None"
    and k2': "session_state ?w2 ''mode'' \<noteq> None"
    by (simp_all add: initialised_def)
  have out3: "fst (output_of p u ?w2) = None"
    using k2 by (rule output_fst)
  have k3: "session_state ?w3 ''text_output'' \<noteq> None" "session_state ?w3 ''mode'' \<noteq> None"
    using output_keeps_keys [OF k2 k2] output_keeps_keys [OF k2 k2'] by simp_all
  have sv: "fst (save_section e u ?w3) = None"
    using k3 by (rule save_section_fst)
  show ?thesis
    using in2 out3 sv assms(1)
    by (simp add: page_def output_of_def case_prod_unfold Let_def sidebar_fst)
qed



subsection \<open>The page when Clear is clicked\<close>

lemma page_clear:
  assumes "clear_btn u" "initialised (session_state w)"
  shows "page e u p w =
     (Rerun, (snd (input_section u (snd (sidebar u w))))
        \<lparr>session_state := clear_session ((session_state w)(''text_input'' \<mapsto> text_area_input u))\<rparr>)"
proof -
  let ?w1 = "snd (sidebar u w)"
  from assms(2) have k1: "session_state ?w1 ''text_input'' \<noteq> None"
    by (simp add: initialised_def)
  have in2: "fst (input_section u ?w1) = Inr (text_area_input u)"
    using k1 by (rule input_section_fst)
  show ?thesis
    using in2 assms(1) k1
    by (simp add: page_def case_prod_unfold Let_def)
qed

subsection \<open>Saving a result\<close>

lemma save_file_result:
  "fst (save_file e c f w) = (if writable e f c then download_path e f else None)"
  by (simp add: save_file_def save_file_try_def writable_def download_path_def Let_def
      split: option.splits)

lemma save_file_opens:
  "download_path e f = Some path \<Longrightarrow>
     filter is_open (trace (snd (save_file e c f w))) = filter is_open (trace w) @ [open_w path]"
  by (auto simp add: save_file_def save_file_try_def download_path_def Let_def
      split: option.splits)

lemma save_file_files:
  "download_path e f = Some path \<Longrightarrow> can_open e path \<Longrightarrow> can_write e path c \<Longrightarrow>
     files (snd (save_file e c f w)) = (files w)(path \<mapsto> text_mode (linesep e) c)"
  by (auto simp add: save_file_def save_file_try_def download_path_def Let_def
      split: option.splits)

lemma save_section_saves:
  assumes "save_btn u" "session_state w ''text_output'' = Some out" "truthy out"
    "session_state w ''mode'' = Some m"
  shows "files (snd (save_section e u w)) = files (snd (save_file e out (save_name m) w))"
    and "filter is_open (trace (snd (save_section e u w)))
          = filter is_open (trace (snd (save_file e out (save_name m) w)))"
  using assms
  by (auto simp add: save_section_def get_state_def save_name_def Let_def case_prod_unfold
      split: option.splits)

lemma save_section_reports:
  assumes "save_btn u" "session_state w ''text_output'' = Some out" "truthy out"
    "session_state w ''mode'' = Some m"
  shows "trace (snd (save_section e u w)) =
     trace (snd (save_file e out (save_name m) w)) @
       [case fst (save_file e out (save_name m) w) of
          None \<Rightarrow> st_error CouldNotSave
        | Some sp \<Rightarrow> if truthy sp then st_success (FileSaved sp) else st_error CouldNotSave]"
  using assms
  by (auto simp add: save_section_def get_state_def save_name_def Let_def case_prod_unfold
      split: option.splits)

subsection \<open>The whole execution\<close>

lemma script_sections:
  assumes "starts_with e w p" "\<not> clear_btn u"
  shows "script e u w =
     (Finished, emit (st_markdown Footer)
        (snd (save_section e u (snd (output_of p u
           (snd (input_section u (snd (sidebar u (begun e w p))))))))))"
  using script_page [OF assms(1)] page_sections [OF assms(2), of "begun e w p"] by simp

lemma entered_session:
  "session_state (snd (input_section u (snd (sidebar u (begun e w p)))))
     = (init_session (session_state w))(''text_input'' \<mapsto> text_area_input u)"
  by (simp add: init_session_apply)

lemma run_calls:
  assumes "starts_with e w p" "run_btn u" "\<not> clear_btn u" "truthy (text_area_input u)"
  shows "calls (snd (script e u w)) = [the_call u]"
proof (cases "inference p u")
  case (Inl ex)
  show ?thesis
    by (simp add: script_sections [OF assms(1,3)] output_failed [OF assms(2,4) Inl] calls_def
        the_call_def)
next
  case (Inr r)
  show ?thesis
    by (simp add: script_sections [OF assms(1,3)] output_succeeded [OF assms(2,4) Inr] calls_def
        the_call_def)
qed

lemma save_btn_irrelevant [simp]:
  "sidebar (u\<lparr>save_btn := b\<rparr>) w = sidebar u w"
  "input_section (u\<lparr>save_btn := b\<rparr>) w = input_section u w"
  "output_of p (u\<lparr>save_btn := b\<rparr>) w = output_of p u w"
  by (simp_all add: sidebar_def input_section_def output_of_def output_section_def Let_def
      split: sum.splits)

lemma save_click:
  assumes "starts_with e w p" and "initialised (session_state w)"
    and "save_btn u" and "\<not> run_btn u" and "\<not> clear_btn u"
    and "session_state w ''text_output'' = Some out" and "truthy out"
    and "session_state w ''mode'' = Some m"
  shows "files (snd (script e u w)) = files (snd (save_file e out (save_name m) w))"
    and "opens (snd (script e u w)) = filter is_open (trace (snd (save_file e out (save_name m)
           (w\<lparr>trace := []\<rparr>))))"
    and "session_state (snd (script e u w)) ''text_output'' = Some out"
proof -
  let ?w2 = "snd (input_section u (snd (sidebar u (begun e w p))))"
  let ?w3 = "snd (output_of p u ?w2)"
  have idle: "\<not> (run_btn u \<and> truthy (text_area_input u))"
    using assms(4) by simp
  have k: "session_state ?w2 ''text_output'' = Some out"
    using assms(2,6) by (simp add: entered_session init_session_initialised)
  have m: "session_state ?w2 ''mode'' = Some m"
    using assms(2,8) by (simp add: entered_session init_session_initialised)
  have o: "output_of p u ?w2 =
     (None, emit (st_text_area ''Previous Output'' out) (emit (st_subheader ''Output'') ?w2))"
    using output_idle [OF idle k, of p] assms(7) by simp
  have k3: "session_state ?w3 ''text_output'' = Some out" "session_state ?w3 ''mode'' = Some m"
    using k m by (simp_all add: o)
  have f3: "files ?w3 = files w" "filter is_open (trace ?w3) = []"
    by simp_all
  have sf: "files (snd (save_file e c f v)) = files (snd (save_file e c f v'))"
    if "files v = files v'" for c f v v'
    using that
    by (simp add: save_file_def save_file_try_def Let_def split: option.splits)
  have so: "filter is_open (trace (snd (save_file e c f v)))
        = filter is_open (trace v) @ filter is_open (trace (snd (save_file e c f (v'\<lparr>trace := []\<rparr>))))"
    for c f v v'
    by (simp add: save_file_def save_file_try_def Let_def split: option.splits)
  show "files (snd (script e u w)) = files (snd (save_file e out (save_name m) w))"
    using save_section_saves(1) [OF assms(3) k3(1) assms(7) k3(2), of e] sf [OF f3(1)]
    by (simp add: script_sections [OF assms(1,5)])
  show "opens (snd (script e u w)) = filter is_open (trace (snd (save_file e out (save_name m)
           (w\<lparr>trace := []\<rparr>))))"
    using save_section_saves(2) [OF assms(3) k3(1) assms(7) k3(2), of e]
      so [of out "save_name m" ?w3 w] f3(2)
    by (simp add: script_sections [OF assms(1,5)] opens_def)
  show "session_state (snd (script e u w)) ''text_output'' = Some out"
    using k3(1) by (simp add: script_sections [OF assms(1,5)])
qed

text \<open>Every execution leaves the three keys present, however it ends.\<close>

lemma clear_session_initialised: "initialised ss \<Longrightarrow> initialised (clear_session ss)"
  by (auto simp add: initialised_def clear_session_def)

lemma script_initialised: "initialised (session_state (snd (script e u w)))"
proof (cases "\<exists>p. starts_with e w p")
  case True
  then obtain p where p: "starts_with e w p" ..
  have ini: "initialised (session_state (begun e w p))" by simp
  show ?thesis
  proof (cases "clear_btn u")
    case True
    show ?thesis
      by (auto simp add: script_page [OF p] page_clear [OF True ini] initialised_def
          clear_session_def init_session_apply split: option.splits)
  next
    case False
    let ?w2 = "snd (input_section u (snd (sidebar u (begun e w p))))"
    have k: "session_state ?w2 ''text_output'' \<noteq> None" "session_state ?w2 ''text_input'' \<noteq> None"
      "session_state ?w2 ''mode'' \<noteq> None"
      by (simp_all add: entered_session init_session_apply)
    show ?thesis
      using output_keeps_keys [OF k(1) k(1), of p u] output_keeps_keys [OF k(1) k(2), of p u]
        output_keeps_keys [OF k(1) k(3), of p u]
      by (simp add: script_sections [OF p False] initialised_def)
  qed
next
  case False
  then show ?thesis
    by (auto simp add: script_def missing_key_def starts_with_def get_pipeline_def Let_def
        split: option.splits sum.splits)
qed

subsection \<open>Text mode, and the rerun after Clear\<close>

lemma text_mode_LF [simp]: "text_mode [LF] s = s"
  by (induction s) (simp_all add: text_mode_def)

lemma text_mode_no_LF: "LF \<notin> set s \<Longrightarrow> text_mode sep s = s"
  by (induction s) (auto simp add: text_mode_def)

lemma text_mode_simps [simp]:
  "text_mode sep [] = []"
  "text_mode sep (c # s) = (if c = LF then sep else [c]) @ text_mode sep s"
  "text_mode sep (s @ t) = text_mode sep s @ text_mode sep t"
  by (simp_all add: text_mode_def)

lemma starts_with_after:
  assumes "starts_with e w p" "cache w' = Some p"
  shows "starts_with e w' p"
  using assms by (auto simp add: starts_with_def split: option.splits)

lemma no_click_simps [simp]:
  "\<not> run_btn (no_click u)" "\<not> clear_btn (no_click u)" "\<not> save_btn (no_click u)"
  "text_area_input (no_click u) = text_area_input u"
  by (simp_all add: no_click_def)

lemma script_clear:
  assumes "starts_with e w p" "clear_btn u"
  shows "script e u w =
     (Rerun, (snd (input_section u (snd (sidebar u (begun e w p)))))
        \<lparr>session_state := clear_session
            ((init_session (session_state w))(''text_input'' \<mapsto> text_area_input u))\<rparr>)"
proof -
  have ini: "initialised (session_state (begun e w p))" by simp
  show ?thesis
    using script_page [OF assms(1)] page_clear [OF assms(2) ini] by simp
qed

lemma script_idle_session:
  assumes "starts_with e w p" "\<not> run_btn u" "\<not> clear_btn u" "initialised (session_state w)"
  shows "fst (script e u w) = Finished"
    and "session_state (snd (script e u w)) = (session_state w)(''text_input'' \<mapsto> text_area_input u)"
proof -
  let ?w2 = "snd (input_section u (snd (sidebar u (begun e w p))))"
  have idle: "\<not> (run_btn u \<and> truthy (text_area_input u))"
    using assms(2) by simp
  from assms(4) obtain out where out: "session_state w ''text_output'' = Some out"
    by (auto simp add: initialised_def)
  have k: "session_state ?w2 ''text_output'' = Some out"
    using assms(4) out by (simp add: entered_session init_session_initialised)
  note o = output_idle [OF idle k, of p]
  show "fst (script e u w) = Finished"
    by (simp add: script_sections [OF assms(1,3)])
  show "session_state (snd (script e u w)) = (session_state w)(''text_input'' \<mapsto> text_area_input u)"
    using assms(4)
    by (simp add: script_sections [OF assms(1,3)] o entered_session init_session_initialised)
qed

lemma clear_then_rerun:
  assumes "starts_with e w p" and "clear_btn u"
  shows "fst (interaction e u u' w) = Finished
     \<and> session_state (snd (interaction e u u' w)) ''text_input'' = Some (text_area_input u')
     \<and> session_state (snd (interaction e u u' w)) ''text_output'' = Some []
     \<and> session_state (snd (interaction e u u' w)) ''mode'' = Some []"
proof -
  let ?w1 = "snd (script e u w)"
  note s = script_clear [OF assms]
  have r: "fst (script e u w) = Rerun" by (simp add: s)
  have c: "cache ?w1 = Some p" by (simp add: s)
  have st: "starts_with e ?w1 p" using assms(1) c by (rule starts_with_after)
  have ini: "initialised (session_state ?w1)" by (rule script_initialised)
  have i: "interaction e u u' w = script e (no_click u') ?w1"
    using r by (simp add: interaction_def case_prod_unfold)
  have v: "session_state ?w1 ''text_output'' = Some []" "session_state ?w1 ''mode'' = Some []"
    by (simp_all add: s clear_session_def init_session_apply split: option.splits)
  show ?thesis
    using v
    by (simp add: i script_idle_session [OF st _ _ ini])
qed

lemma clear_handler_resets:
  assumes "starts_with e w p" and "clear_btn u"
  shows "fst (script e u w) = Rerun
     \<and> session_state (snd (script e u w)) ''text_input'' = Some []
     \<and> session_state (snd (script e u w)) ''text_output'' = Some []
     \<and> session_state (snd (script e u w)) ''mode'' = Some []
     \<and> (\<forall>k. session_state (snd (script e u w)) k = None
             \<or> session_state (snd (script e u w)) k = Some [])"
proof -
  have ini: "initialised (session_state (begun e w p))" by simp
  have s: "script e u w =
     (Rerun, (snd (input_section u (snd (sidebar u (begun e w p)))))
        \<lparr>session_state := clear_session
            ((init_session (session_state w))(''text_input'' \<mapsto> text_area_input u))\<rparr>)"
    using script_page [OF assms(1)] page_clear [OF assms(2) ini] by simp
  show ?thesis
    by (simp add: s clear_session_def init_session_apply split: option.splits)
qed

section \<open>Properties of the program\<close>

text \<open>
  A click on a button makes the framework execute the script once with that button
  returning \<open>True\<close>; the other buttons return \<open>False\<close> in that execution. A
  property of a click states the values of the other buttons it depends on, and that the
  script gets past its start, without which no button is drawn.
\<close>

subsection \<open>Missing credential\<close>

text \<open>
  Claim C7. If the API credential is absent at startup (\<open>HF_API_KEY\<close> unset, or set to
  the empty string), the execution ends in \<open>st.stop()\<close> after showing the error message
  and the link to the token page, and nothing else happens: the log holds the page setup,
  the message and the link only (no pipeline construction, no widget, no inference call,
  no file opening), and the cache and the files are as before. The session dictionary has
  only gone through the initialisation of lines 106-108, which precedes the check.
\<close>

theorem missing_key_halts:
  assumes "\<not> truthy_opt (HF_API_KEY e)"
  shows "script e u w =
     (Stopped, w\<lparr>session_state := init_session (session_state w),
                 trace := [st_set_page_config, st_markdown Css, st_error MissingKey,
                           st_markdown TokenLink]\<rparr>)"
  using assms
  by (cases w)
    (auto simp add: script_def missing_key_def truthy_opt_def emit_def Let_def
      split: option.splits)

theorem missing_key_halts_witness:
  "\<not> truthy_opt (HF_API_KEY no_key) \<and>
   script no_key (idle\<lparr>run_btn := True\<rparr>) used =
     (Stopped, used\<lparr>session_state := init_session (session_state used),
                    trace := [st_set_page_config, st_markdown Css, st_error MissingKey,
                              st_markdown TokenLink]\<rparr>)"
  using missing_key_halts [of no_key "idle\<lparr>run_btn := True\<rparr>" used]
  by (simp add: no_key_def posix_def truthy_opt_def)

subsection \<open>\<open>save_file\<close> at its boundary\<close>

text \<open>
  Claim C10. For every content, file name and state of the world, \<open>save_file\<close> returns:
  every exception raised in its body is turned into \<open>None\<close>, and the result is either
  \<open>None\<close> or the string of the path \<open>Path.home() / "Downloads" / filename\<close>, in which
  case the file at that path holds the content as text mode writes it.
\<close>

theorem save_file_total:
  "fst (save_file e content filename w) =
     (case fst (save_file_try e content filename w) of Inl ex \<Rightarrow> None | Inr path \<Rightarrow> Some path)
   \<and> (fst (save_file e content filename w) = None
      \<or> (\<exists>path. download_path e filename = Some path
            \<and> fst (save_file e content filename w) = Some path
            \<and> files (snd (save_file e content filename w)) path
                 = Some (text_mode (linesep e) content)))"
  by (simp add: save_file_def save_file_try_def download_path_def Let_def
      split: option.splits)

subsection \<open>The Run action\<close>

text \<open>
  Claim C1. When Run is clicked with a non-empty input and the inference call raises
  \<open>ex\<close>, the execution shows the error \<open>f"Error: {ex}"\<close>, runs to its end, and the
  session values under \<open>text_output\<close> and \<open>mode\<close> are the ones from before the click.
\<close>

theorem failed_run_keeps_output:
  assumes "starts_with e w p" and "initialised (session_state w)"
    and "run_btn u" and "\<not> clear_btn u" and "truthy (text_area_input u)"
    and "inference p u = Inl ex"
  shows "fst (script e u w) = Finished
     \<and> st_error (RunFailed (str_of ex)) \<in> set (trace (snd (script e u w)))
     \<and> session_state (snd (script e u w)) ''text_output'' = session_state w ''text_output''
     \<and> session_state (snd (script e u w)) ''mode'' = session_state w ''mode''"
proof -
  let ?b = "begun e w p"
  let ?w2 = "snd (input_section u (snd (sidebar u ?b)))"
  have ini: "initialised (session_state ?b)" by simp
  have s: "script e u w =
      (Finished, emit (st_markdown Footer) (snd (save_section e u (snd (output_of p u ?w2)))))"
    using script_page [OF assms(1)] page_sections [OF assms(4) ini] by simp
  have o: "output_of p u ?w2 =
      (None, emit (st_error (RunFailed (str_of ex))) (emit (the_call u)
               (emit st_spinner (emit (st_subheader ''Output'') ?w2))))"
    using assms(3,5,6) by (rule output_failed)
  have k: "session_state (snd (sidebar u ?b)) ''text_input'' \<noteq> None"
    using ini by (simp add: initialised_def)
  show ?thesis
    using assms(2) k
    by (simp add: s o save_section_mono init_session_initialised)
qed

theorem failed_run_keeps_output_witness:
  "starts_with (posix down_pipeline) used down_pipeline
   \<and> initialised (session_state used)
   \<and> run_btn (idle\<lparr>run_btn := True\<rparr>) \<and> \<not> clear_btn (idle\<lparr>run_btn := True\<rparr>)
   \<and> truthy (text_area_input (idle\<lparr>run_btn := True\<rparr>))
   \<and> inference down_pipeline (idle\<lparr>run_btn := True\<rparr>) = Inl (Exception ''503 Service Unavailable'')
   \<and> fst (script (posix down_pipeline) (idle\<lparr>run_btn := True\<rparr>) used) = Finished
   \<and> st_error (RunFailed ''503 Service Unavailable'')
        \<in> set (trace (snd (script (posix down_pipeline) (idle\<lparr>run_btn := True\<rparr>) used)))
   \<and> session_state (snd (script (posix down_pipeline) (idle\<lparr>run_btn := True\<rparr>) used)) ''text_output''
        = Some ''Short text.''
   \<and> session_state (snd (script (posix down_pipeline) (idle\<lparr>run_btn := True\<rparr>) used)) ''mode''
        = Some ''summary''"
  using failed_run_keeps_output [where e = "posix down_pipeline" and w = used
      and p = down_pipeline and u = "idle\<lparr>run_btn := True\<rparr>"
      and ex = "Exception ''503 Service Unavailable''"]
  by (simp add: starts_with_def posix_def used_def idle_def initialised_def truthy_def
      inference_def down_pipeline_def)


text \<open>
  Claim C8, as stated, fails: a Run click with an empty input makes no call at all
  (the guard \<open>run_btn and input_text\<close> of line 198).
\<close>

theorem run_with_empty_input_counterexample:
  "run_btn (idle\<lparr>text_area_input := [], run_btn := True\<rparr>)
   \<and> fst (script (posix echo_pipeline) (idle\<lparr>text_area_input := [], run_btn := True\<rparr>) used) = Finished
   \<and> calls (snd (script (posix echo_pipeline) (idle\<lparr>text_area_input := [], run_btn := True\<rparr>) used)) = []"
  by code_simp

text \<open>
  Claim C8, amended. Every Run click with a non-empty input makes exactly one inference
  call in the execution: \<open>summarize\<close> when the task is summarization, \<open>paraphrase\<close>
  otherwise, with the text that the session holds under \<open>text_input\<close>. When the call
  returns \<open>r\<close>, the session holds \<open>r\<close> under \<open>text_output\<close> and the tag
  \<open>summary\<close> or \<open>paraphrase\<close> under \<open>mode\<close>.
\<close>

theorem run_calls_once:
  assumes "starts_with e w p" and "run_btn u" and "\<not> clear_btn u"
    and "truthy (text_area_input u)"
  shows "calls (snd (script e u w)) =
       [if radio_task u = ''Summarization''
        then call_summarize (text_area_input u) (lower (selectbox_style u)) (lower (slider_length u))
        else call_paraphrase (text_area_input u)]
     \<and> session_state (snd (script e u w)) ''text_input'' = Some (text_area_input u)
     \<and> (\<forall>r. inference p u = Inr r \<longrightarrow>
           session_state (snd (script e u w)) ''text_output'' = Some r
         \<and> session_state (snd (script e u w)) ''mode'' =
             Some (if radio_task u = ''Summarization'' then ''summary'' else ''paraphrase''))"
proof -
  have c: "calls (snd (script e u w)) = [the_call u]"
    using assms by (rule run_calls)
  have i: "session_state (snd (script e u w)) ''text_input'' = Some (text_area_input u)"
  proof (cases "inference p u")
    case (Inl ex)
    show ?thesis
      by (simp add: script_sections [OF assms(1,3)] output_failed [OF assms(2,4) Inl]
          entered_session)
  next
    case (Inr r)
    show ?thesis
      by (simp add: script_sections [OF assms(1,3)] output_succeeded [OF assms(2,4) Inr]
          entered_session)
  qed
  have r: "session_state (snd (script e u w)) ''text_output'' = Some r
         \<and> session_state (snd (script e u w)) ''mode'' = Some (mode_tag u)"
    if "inference p u = Inr r" for r
    by (simp add: script_sections [OF assms(1,3)] output_succeeded [OF assms(2,4) that])
  from c i r show ?thesis
    by (simp add: the_call_def mode_tag_def)
qed

theorem run_calls_once_witness:
  "starts_with (posix echo_pipeline) used echo_pipeline
   \<and> run_btn (idle\<lparr>radio_task := ''Paraphrasing'', run_btn := True\<rparr>)
   \<and> \<not> clear_btn (idle\<lparr>radio_task := ''Paraphrasing'', run_btn := True\<rparr>)
   \<and> truthy (text_area_input (idle\<lparr>radio_task := ''Paraphrasing'', run_btn := True\<rparr>))
   \<and> inference echo_pipeline (idle\<lparr>radio_task := ''Paraphrasing'', run_btn := True\<rparr>)
        = Inr ''again: Some text.''
   \<and> calls (snd (script (posix echo_pipeline)
          (idle\<lparr>radio_task := ''Paraphrasing'', run_btn := True\<rparr>) used))
        = [call_paraphrase ''Some text.'']
   \<and> session_state (snd (script (posix echo_pipeline)
          (idle\<lparr>radio_task := ''Paraphrasing'', run_btn := True\<rparr>) used)) ''text_input''
        = Some ''Some text.''
   \<and> session_state (snd (script (posix echo_pipeline)
          (idle\<lparr>radio_task := ''Paraphrasing'', run_btn := True\<rparr>) used)) ''text_output''
        = Some ''again: Some text.''
   \<and> session_state (snd (script (posix echo_pipeline)
          (idle\<lparr>radio_task := ''Paraphrasing'', run_btn := True\<rparr>) used)) ''mode''
        = Some ''paraphrase''"
  using run_calls_once [where e = "posix echo_pipeline" and w = used and p = echo_pipeline
      and u = "idle\<lparr>radio_task := ''Paraphrasing'', run_btn := True\<rparr>"]
  by (simp add: starts_with_def posix_def used_def idle_def truthy_def inference_def
      echo_pipeline_def)

text \<open>
  Claim C5. For every valid pair of a method (abstractive, extractive) and a length (short,
  medium, long), when that pair is the one selected in the UI, through the options that
  display it, a Run click with a non-empty input and the summarization task makes exactly
  one call, to \<open>summarize\<close>, with the input text and with exactly that method and that
  length. The options of the two selectors are the ones that display the valid values.
\<close>

theorem run_forwards_selection:
  assumes "starts_with e w p" and "run_btn u" and "\<not> clear_btn u"
    and "truthy (text_area_input u)" and "radio_task u = ''Summarization''"
    and "(selectbox_style u, m) \<in> set spec_methods"
    and "(slider_length u, l) \<in> set spec_lengths"
  shows "calls (snd (script e u w)) = [call_summarize (text_area_input u) m l]
     \<and> map fst spec_methods = style_options
     \<and> map fst spec_lengths = length_options"
proof -
  have c: "calls (snd (script e u w)) = [the_call u]"
    using assms(1-4) by (rule run_calls)
  have lo: "lower ''Abstractive'' = ''abstractive''" "lower ''Extractive'' = ''extractive''"
    "lower ''Short'' = ''short''" "lower ''Medium'' = ''medium''" "lower ''Long'' = ''long''"
    by code_simp+
  have m: "lower (selectbox_style u) = m"
    using assms(6) lo by (auto simp add: spec_methods_def)
  have l': "lower (slider_length u) = l"
    using assms(7) lo by (auto simp add: spec_lengths_def)
  from c m l' assms(5) show ?thesis
    by (simp add: the_call_def spec_methods_def spec_lengths_def style_options_def
        length_options_def)
qed

theorem run_forwards_selection_witness:
  "starts_with (posix echo_pipeline) fresh echo_pipeline
   \<and> run_btn (idle\<lparr>selectbox_style := ''Extractive'', slider_length := ''Long'', run_btn := True\<rparr>)
   \<and> \<not> clear_btn (idle\<lparr>selectbox_style := ''Extractive'', slider_length := ''Long'', run_btn := True\<rparr>)
   \<and> (''Extractive'', ''extractive'') \<in> set spec_methods
   \<and> (''Long'', ''long'') \<in> set spec_lengths
   \<and> calls (snd (script (posix echo_pipeline)
         (idle\<lparr>selectbox_style := ''Extractive'', slider_length := ''Long'', run_btn := True\<rparr>) fresh))
       = [call_summarize ''Some text.'' ''extractive'' ''long'']"
  using run_forwards_selection [where e = "posix echo_pipeline" and w = fresh
      and p = echo_pipeline
      and u = "idle\<lparr>selectbox_style := ''Extractive'', slider_length := ''Long'', run_btn := True\<rparr>"
      and m = "''extractive''" and l = "''long''"]
  by (simp add: starts_with_def posix_def fresh_def idle_def truthy_def spec_methods_def
      spec_lengths_def)

text \<open>
  Claim C9. A Run click with an empty input makes no inference call and leaves the
  session values under \<open>text_output\<close> and \<open>mode\<close> as they were; the previous output,
  when there is one, is shown again under "Previous Output" (the placeholder otherwise).
\<close>

theorem empty_run_is_idle:
  assumes "starts_with e w p" and "initialised (session_state w)"
    and "run_btn u" and "\<not> clear_btn u" and "text_area_input u = []"
    and "session_state w ''text_output'' = Some out"
  shows "calls (snd (script e u w)) = []
     \<and> session_state (snd (script e u w)) ''text_output'' = Some out
     \<and> session_state (snd (script e u w)) ''mode'' = session_state w ''mode''
     \<and> (if truthy out then st_text_area ''Previous Output'' out else st_markdown Placeholder)
          \<in> set (trace (snd (script e u w)))"
proof -
  let ?w2 = "snd (input_section u (snd (sidebar u (begun e w p))))"
  have idle: "\<not> (run_btn u \<and> truthy (text_area_input u))"
    using assms(5) by (simp add: truthy_def)
  have k: "session_state ?w2 ''text_output'' = Some out"
    using assms(2,6) by (simp add: entered_session init_session_initialised)
  have o: "output_of p u ?w2 =
     (None, emit (if truthy out then st_text_area ''Previous Output'' out else st_markdown Placeholder)
              (emit (st_subheader ''Output'') ?w2))"
    using idle k by (rule output_idle)
  have m: "session_state ?w2 ''mode'' = session_state w ''mode''"
    using assms(2) by (simp add: entered_session init_session_initialised)
  show ?thesis
    using k m
    by (simp add: script_sections [OF assms(1,4)] o calls_def save_section_mono)
qed

theorem empty_run_is_idle_witness:
  "starts_with (posix echo_pipeline) used echo_pipeline \<and> initialised (session_state used)
   \<and> run_btn (idle\<lparr>text_area_input := [], run_btn := True\<rparr>)
   \<and> \<not> clear_btn (idle\<lparr>text_area_input := [], run_btn := True\<rparr>)
   \<and> text_area_input (idle\<lparr>text_area_input := [], run_btn := True\<rparr>) = []
   \<and> session_state used ''text_output'' = Some ''Short text.''
   \<and> calls (snd (script (posix echo_pipeline) (idle\<lparr>text_area_input := [], run_btn := True\<rparr>) used)) = []
   \<and> session_state (snd (script (posix echo_pipeline)
         (idle\<lparr>text_area_input := [], run_btn := True\<rparr>) used)) ''text_output'' = Some ''Short text.''
   \<and> session_state (snd (script (posix echo_pipeline)
         (idle\<lparr>text_area_input := [], run_btn := True\<rparr>) used)) ''mode'' = Some ''summary''
   \<and> st_text_area ''Previous Output'' ''Short text.''
       \<in> set (trace (snd (script (posix echo_pipeline)
             (idle\<lparr>text_area_input := [], run_btn := True\<rparr>) used)))"
  using empty_run_is_idle [where e = "posix echo_pipeline" and w = used
      and p = echo_pipeline and u = "idle\<lparr>text_area_input := [], run_btn := True\<rparr>"
      and out = "''Short text.''"]
  by (simp add: starts_with_def posix_def used_def idle_def initialised_def truthy_def)

subsection \<open>The Clear action\<close>

text \<open>
  Claim C4. The Clear handler sets every key of the session to \<open>""\<close> and ends the
  execution with \<open>st.rerun()\<close> (lemma \<open>clear_handler_resets\<close>). The rerun executes
  line 183 again, which stores under \<open>text_input\<close> what the text area returns (lemma
  \<open>clear_then_rerun\<close>). With "abc" typed when Clear is clicked and returned again by the
  text area in the rerun, the Clear action ends with "abc" under \<open>text_input\<close>, not with
  the empty value, while \<open>text_output\<close> and \<open>mode\<close> are empty.
\<close>

theorem clear_then_rerun_keeps_input:
  "clear_btn (idle\<lparr>text_area_input := ''abc'', clear_btn := True\<rparr>)
   \<and> fst (script (posix echo_pipeline) (idle\<lparr>text_area_input := ''abc'', clear_btn := True\<rparr>) blank) = Rerun
   \<and> session_state (snd (script (posix echo_pipeline)
         (idle\<lparr>text_area_input := ''abc'', clear_btn := True\<rparr>) blank)) ''text_input'' = Some []
   \<and> fst (interaction (posix echo_pipeline) (idle\<lparr>text_area_input := ''abc'', clear_btn := True\<rparr>)
         (idle\<lparr>text_area_input := ''abc''\<rparr>) blank) = Finished
   \<and> session_state (snd (interaction (posix echo_pipeline)
         (idle\<lparr>text_area_input := ''abc'', clear_btn := True\<rparr>)
         (idle\<lparr>text_area_input := ''abc''\<rparr>) blank)) ''text_input'' = Some ''abc''
   \<and> session_state (snd (interaction (posix echo_pipeline)
         (idle\<lparr>text_area_input := ''abc'', clear_btn := True\<rparr>)
         (idle\<lparr>text_area_input := ''abc''\<rparr>) blank)) ''text_output'' = Some []
   \<and> session_state (snd (interaction (posix echo_pipeline)
         (idle\<lparr>text_area_input := ''abc'', clear_btn := True\<rparr>)
         (idle\<lparr>text_area_input := ''abc''\<rparr>) blank)) ''mode'' = Some []"
  by code_simp

subsection \<open>The Save action\<close>

text \<open>
  Claim C2, as stated, fails: a Save click with no prior result reports nothing. The
  execution shows no error at all, in particular not "Could not save file".
\<close>

theorem save_nothing_counterexample:
  "save_btn (idle\<lparr>save_btn := True\<rparr>)
   \<and> session_state blank ''text_output'' = Some []
   \<and> fst (script (posix echo_pipeline) (idle\<lparr>save_btn := True\<rparr>) blank) = Finished
   \<and> errors (snd (script (posix echo_pipeline) (idle\<lparr>save_btn := True\<rparr>) blank)) = []
   \<and> st_error CouldNotSave
        \<notin> set (trace (snd (script (posix echo_pipeline) (idle\<lparr>save_btn := True\<rparr>) blank)))"
  by code_simp

text \<open>
  Claim C2, amended. A Save click with no prior result (\<open>text_output\<close> is \<open>""\<close>)
  does nothing: the execution is the one of the same page with no Save click, so no file
  is opened, the files are as before, and no error or other report about saving is shown.
\<close>

theorem save_without_output_does_nothing:
  assumes "starts_with e w p" and "save_btn u" and "\<not> run_btn u"
    and "session_state w ''text_output'' = Some []"
  shows "script e u w = script e (u\<lparr>save_btn := False\<rparr>) w
     \<and> opens (snd (script e u w)) = []
     \<and> files (snd (script e u w)) = files w
     \<and> errors (snd (script e u w)) = []"
proof (cases "clear_btn u")
  case True
  have ini: "initialised (session_state (begun e w p))" by simp
  have c': "clear_btn (u\<lparr>save_btn := False\<rparr>)" using True by simp
  show ?thesis
    by (simp add: script_page [OF assms(1)] page_clear [OF True ini] page_clear [OF c' ini]
        opens_def errors_def)
next
  case False
  let ?w2 = "snd (input_section u (snd (sidebar u (begun e w p))))"
  let ?u = "u\<lparr>save_btn := False\<rparr>"
  have c': "\<not> clear_btn ?u" using False by simp
  have idle: "\<not> (run_btn u \<and> truthy (text_area_input u))"
    using assms(3) by simp
  have k: "session_state ?w2 ''text_output'' = Some []"
    using assms(4) by (simp add: entered_session init_session_apply)
  have o: "output_of p u ?w2 = (None, emit (st_markdown Placeholder) (emit (st_subheader ''Output'') ?w2))"
    using output_idle [OF idle k, of p] by (simp add: truthy_def)
  have sv: "save_section e u (snd (output_of p u ?w2)) = (None, snd (output_of p u ?w2))"
    "save_section e ?u (snd (output_of p u ?w2)) = (None, snd (output_of p u ?w2))"
    using k by (simp_all add: o save_section_skip)
  show ?thesis
    by (simp add: script_sections [OF assms(1) False] script_sections [OF assms(1) c'] sv
        opens_def errors_def)
      (simp add: o)
qed

theorem save_without_output_does_nothing_witness:
  "starts_with (posix echo_pipeline) blank echo_pipeline
   \<and> save_btn (idle\<lparr>save_btn := True\<rparr>) \<and> \<not> run_btn (idle\<lparr>save_btn := True\<rparr>)
   \<and> session_state blank ''text_output'' = Some []
   \<and> script (posix echo_pipeline) (idle\<lparr>save_btn := True\<rparr>) blank
        = script (posix echo_pipeline) (idle\<lparr>save_btn := True, save_btn := False\<rparr>) blank
   \<and> opens (snd (script (posix echo_pipeline) (idle\<lparr>save_btn := True\<rparr>) blank)) = []
   \<and> files (snd (script (posix echo_pipeline) (idle\<lparr>save_btn := True\<rparr>) blank)) = files blank
   \<and> errors (snd (script (posix echo_pipeline) (idle\<lparr>save_btn := True\<rparr>) blank)) = []"
proof -
  have h: "starts_with (posix echo_pipeline) blank echo_pipeline"
    "save_btn (idle\<lparr>save_btn := True\<rparr>)" "\<not> run_btn (idle\<lparr>save_btn := True\<rparr>)"
    "session_state blank ''text_output'' = Some []"
    by (simp_all add: starts_with_def posix_def blank_def idle_def truthy_def)
  from save_without_output_does_nothing [OF h] h show ?thesis
    by blast
qed

text \<open>
  Claim C3, as stated, fails where the line separator of the platform is not the line
  feed: the output "a", line feed, "b" is saved as "a", carriage return, line feed, "b".
\<close>

theorem save_translates_newlines_counterexample:
  "save_btn (idle\<lparr>save_btn := True\<rparr>)
   \<and> session_state two_lines ''text_output'' = Some (''a'' @ [LF] @ ''b'')
   \<and> download_path windows (save_name ''summary'')
        = Some (''C:'' @ [CHR 0x5C] @ ''Users'' @ [CHR 0x5C] @ ''ann'' @ [CHR 0x5C] @ ''Downloads''
                 @ [CHR 0x5C] @ ''AI_output.txt'')
   \<and> writable windows (save_name ''summary'') (''a'' @ [LF] @ ''b'')
   \<and> files (snd (script windows (idle\<lparr>save_btn := True\<rparr>) two_lines))
        (''C:'' @ [CHR 0x5C] @ ''Users'' @ [CHR 0x5C] @ ''ann'' @ [CHR 0x5C] @ ''Downloads''
           @ [CHR 0x5C] @ ''AI_output.txt'')
        = Some (''a'' @ [CR, LF] @ ''b'')
   \<and> ''a'' @ [CR, LF] @ ''b'' \<noteq> ''a'' @ [LF] @ ''b''"
  by code_simp

text \<open>
  Claim C3, amended. A Save click with a prior result \<open>out\<close>, when the target
  \<open>Path.home() / "Downloads" / name\<close> can be opened and written, leaves a file at that
  path whose content is \<open>out\<close>, the output string the session holds, with every line
  feed written as the line separator of the platform. The content is exactly \<open>out\<close>
  where that separator is the line feed or \<open>out\<close> holds no line feed.
\<close>

theorem save_writes_output:
  assumes "starts_with e w p" and "initialised (session_state w)"
    and "save_btn u" and "\<not> run_btn u" and "\<not> clear_btn u"
    and "session_state w ''text_output'' = Some out" and "truthy out"
    and "session_state w ''mode'' = Some m"
    and "download_path e (save_name m) = Some path"
    and "can_open e path" and "can_write e path out"
  shows "files (snd (script e u w)) path = Some (text_mode (linesep e) out)
     \<and> session_state (snd (script e u w)) ''text_output'' = Some out
     \<and> (linesep e = [LF] \<or> LF \<notin> set out \<longrightarrow> files (snd (script e u w)) path = Some out)"
  using save_click(1,3) [OF assms(1-8)] save_file_files [OF assms(9-11), of w]
  by (auto simp add: text_mode_no_LF)

theorem save_writes_output_witness:
  "starts_with windows two_lines echo_pipeline \<and> initialised (session_state two_lines)
   \<and> save_btn (idle\<lparr>save_btn := True\<rparr>) \<and> \<not> run_btn (idle\<lparr>save_btn := True\<rparr>)
   \<and> \<not> clear_btn (idle\<lparr>save_btn := True\<rparr>)
   \<and> session_state two_lines ''text_output'' = Some (''a'' @ [LF] @ ''b'')
   \<and> truthy (''a'' @ [LF] @ ''b'')
   \<and> session_state two_lines ''mode'' = Some ''summary''
   \<and> files (snd (script windows (idle\<lparr>save_btn := True\<rparr>) two_lines))
        (''C:'' @ [CHR 0x5C] @ ''Users'' @ [CHR 0x5C] @ ''ann'' @ [CHR 0x5C] @ ''Downloads''
           @ [CHR 0x5C] @ ''AI_output.txt'')
        = Some (text_mode [CR, LF] (''a'' @ [LF] @ ''b''))"
proof -
  have h: "starts_with windows two_lines echo_pipeline" "initialised (session_state two_lines)"
    "save_btn (idle\<lparr>save_btn := True\<rparr>)" "\<not> run_btn (idle\<lparr>save_btn := True\<rparr>)"
    "\<not> clear_btn (idle\<lparr>save_btn := True\<rparr>)"
    "session_state two_lines ''text_output'' = Some (''a'' @ [LF] @ ''b'')"
    "truthy (''a'' @ [LF] @ ''b'')"
    "session_state two_lines ''mode'' = Some ''summary''"
    "download_path windows (save_name ''summary'')
        = Some (''C:'' @ [CHR 0x5C] @ ''Users'' @ [CHR 0x5C] @ ''ann'' @ [CHR 0x5C] @ ''Downloads''
                 @ [CHR 0x5C] @ ''AI_output.txt'')"
    "can_open windows (''C:'' @ [CHR 0x5C] @ ''Users'' @ [CHR 0x5C] @ ''ann'' @ [CHR 0x5C]
        @ ''Downloads'' @ [CHR 0x5C] @ ''AI_output.txt'')"
    "can_write windows (''C:'' @ [CHR 0x5C] @ ''Users'' @ [CHR 0x5C] @ ''ann'' @ [CHR 0x5C]
        @ ''Downloads'' @ [CHR 0x5C] @ ''AI_output.txt'') (''a'' @ [LF] @ ''b'')"
    by (simp_all add: starts_with_def windows_def posix_def two_lines_def idle_def
        initialised_def truthy_def download_path_def save_name_def)
  have l: "linesep windows = [CR, LF]" by (simp add: windows_def)
  from save_writes_output [OF h] h l show ?thesis by simp
qed

text \<open>
  Claim C6. A Save click with a prior result opens exactly one file for writing: the file
  \<open>AI_output.txt\<close> when the mode is \<open>summary\<close>, \<open>AI_paraphrase.txt\<close> otherwise, in
  the directory \<open>Downloads\<close> of the user's home directory, and what the click does to the
  files is what \<open>save_file\<close> does with the last result and that name. \<open>save_file\<close>
  returns the string of the path when the file could be opened and written, and then the
  file holds the content as text mode writes it; it returns \<open>None\<close> when opening or
  writing failed.
\<close>

theorem save_target_and_result:
  assumes "starts_with e w p" and "initialised (session_state w)"
    and "save_btn u" and "\<not> run_btn u" and "\<not> clear_btn u"
    and "session_state w ''text_output'' = Some out" and "truthy out"
    and "session_state w ''mode'' = Some m"
    and "path_home e = Some home"
  shows "opens (snd (script e u w)) =
       [open_w (joinpath e (joinpath e home ''Downloads'')
          (if m = ''summary'' then ''AI_output.txt'' else ''AI_paraphrase.txt''))]
     \<and> files (snd (script e u w)) = files (snd (save_file e out
          (if m = ''summary'' then ''AI_output.txt'' else ''AI_paraphrase.txt'') w))
     \<and> (\<forall>content filename v.
          fst (save_file e content filename v) =
            (if can_open e (joinpath e (joinpath e home ''Downloads'') filename)
                \<and> can_write e (joinpath e (joinpath e home ''Downloads'') filename) content
             then Some (joinpath e (joinpath e home ''Downloads'') filename)
             else None)
        \<and> (fst (save_file e content filename v) \<noteq> None \<longrightarrow>
             files (snd (save_file e content filename v))
               (joinpath e (joinpath e home ''Downloads'') filename)
                 = Some (text_mode (linesep e) content)))"
proof -
  have d: "download_path e f = Some (joinpath e (joinpath e home ''Downloads'') f)" for f
    using assms(9) by (simp add: download_path_def)
  have o: "opens (snd (script e u w)) =
       [open_w (joinpath e (joinpath e home ''Downloads'') (save_name m))]"
    using save_click(2) [OF assms(1-8)] save_file_opens [OF d, of out "save_name m" "w\<lparr>trace := []\<rparr>"]
    by simp
  have f: "files (snd (script e u w)) = files (snd (save_file e out (save_name m) w))"
    using assms(1-8) by (rule save_click(1))
  have r: "fst (save_file e content filename v) =
            (if can_open e (joinpath e (joinpath e home ''Downloads'') filename)
                \<and> can_write e (joinpath e (joinpath e home ''Downloads'') filename) content
             then Some (joinpath e (joinpath e home ''Downloads'') filename)
             else None)" for content filename v
    by (simp add: save_file_result writable_def d)
  have c: "files (snd (save_file e content filename v))
               (joinpath e (joinpath e home ''Downloads'') filename)
                 = Some (text_mode (linesep e) content)"
    if "fst (save_file e content filename v) \<noteq> None" for content filename v
    using that save_file_files [OF d, of filename content v]
    by (simp add: r split: if_splits)
  from o f r c show ?thesis
    by (simp add: save_name_def)
qed

theorem save_target_and_result_witness:
  "starts_with (posix echo_pipeline) used echo_pipeline \<and> initialised (session_state used)
   \<and> save_btn (idle\<lparr>save_btn := True\<rparr>) \<and> \<not> run_btn (idle\<lparr>save_btn := True\<rparr>)
   \<and> \<not> clear_btn (idle\<lparr>save_btn := True\<rparr>)
   \<and> session_state used ''text_output'' = Some ''Short text.'' \<and> truthy ''Short text.''
   \<and> session_state used ''mode'' = Some ''summary''
   \<and> path_home (posix echo_pipeline) = Some ''/home/ann''
   \<and> opens (snd (script (posix echo_pipeline) (idle\<lparr>save_btn := True\<rparr>) used))
        = [open_w ''/home/ann/Downloads/AI_output.txt'']
   \<and> fst (save_file (posix echo_pipeline) ''Short text.'' ''AI_output.txt'' used)
        = Some ''/home/ann/Downloads/AI_output.txt''
   \<and> fst (save_file read_only ''Short text.'' ''AI_output.txt'' used) = None"
proof -
  note t = save_target_and_result [where e = "posix echo_pipeline" and w = used
      and p = echo_pipeline and u = "idle\<lparr>save_btn := True\<rparr>" and out = "''Short text.''"
      and m = "''summary''" and home = "''/home/ann''"]
  note t' = save_target_and_result [where e = read_only and w = used
      and p = echo_pipeline and u = "idle\<lparr>save_btn := True\<rparr>" and out = "''Short text.''"
      and m = "''summary''" and home = "''/home/ann''"]
  have h: "starts_with (posix echo_pipeline) used echo_pipeline" "initialised (session_state used)"
    "save_btn (idle\<lparr>save_btn := True\<rparr>)" "\<not> run_btn (idle\<lparr>save_btn := True\<rparr>)"
    "\<not> clear_btn (idle\<lparr>save_btn := True\<rparr>)"
    "session_state used ''text_output'' = Some ''Short text.''" "truthy ''Short text.''"
    "session_state used ''mode'' = Some ''summary''"
    "path_home (posix echo_pipeline) = Some ''/home/ann''"
    by (simp_all add: starts_with_def posix_def used_def idle_def initialised_def truthy_def)
  have h': "starts_with read_only used echo_pipeline" "path_home read_only = Some ''/home/ann''"
    by (simp_all add: starts_with_def read_only_def posix_def used_def truthy_def)
  from t [OF h] have a: "opens (snd (script (posix echo_pipeline) (idle\<lparr>save_btn := True\<rparr>) used))
        = [open_w ''/home/ann/Downloads/AI_output.txt'']"
    and b: "fst (save_file (posix echo_pipeline) ''Short text.'' ''AI_output.txt'' used)
        = Some ''/home/ann/Downloads/AI_output.txt''"
    by (simp_all add: posix_def)
  from t' [OF h'(1) h(2-8) h'(2)]
  have c: "fst (save_file read_only ''Short text.'' ''AI_output.txt'' used) = None"
    by (simp add: read_only_def posix_def)
  from h a b c show ?thesis by simp
qed

end
